theory Spec2Isabelle
  imports Main
begin

section \<open>Data model\<close>

text \<open>
  The metrics SDK is TypeScript. Objects that are mutated and shared by reference (the
  metric storages) live in an explicit store, a list indexed by address; values that are
  never mutated after construction (descriptors, views, collector handles, metric data)
  are plain HOL values. JavaScript numbers are modelled as integers: the properties
  below only use integral measurements.
\<close>

text \<open>Addresses of the store, and the identity of a \<open>Meter\<close> object.\<close>

type_synonym addr = nat
type_synonym MeterRef = nat

text \<open>A thrown or rejected JavaScript error, with its message.\<close>

datatype error = Error string

text \<open>
  Modelled from the spec: the types \<open>HrTime\<close>, \<open>Resource\<close> and
  \<open>InstrumentationLibrary\<close>, which \<open>Meter\<close> and \<open>MetricStorage.ts\<close> import, are not
  among the sources. A time is a pair of seconds and nanoseconds, a resource and an
  attribute set are lists of key/value pairs, an instrumentation scope is a name and a
  version (\<open>getMeter('default', '0.0.1')\<close> in the fixtures).
\<close>

type_synonym HrTime = "nat \<times> nat"
type_synonym Attributes = "(string \<times> string) list"
type_synonym Resource = "(string \<times> string) list"

record InstrumentationLibrary =
  lib_name :: string
  lib_version :: string

text \<open>
  Modelled from the spec: \<open>InstrumentDescriptor\<close> and \<open>InstrumentType\<close>
  (InstrumentDescriptor.ts) are not among the sources. Section 3: a descriptor is
  \<open>{name, kind, description, unit, valueType}\<close> with the six kinds below (the
  constants are those \<open>Meter\<close> passes) and the value types Int and Double. The options
  of a creation supply description, unit and value type.
\<close>

datatype InstrumentType =
  COUNTER | HISTOGRAM | UP_DOWN_COUNTER
  | OBSERVABLE_COUNTER | OBSERVABLE_GAUGE | OBSERVABLE_UP_DOWN_COUNTER

datatype ValueType = ValueType_INT | ValueType_DOUBLE

record InstrumentDescriptor =
  name :: string
  description :: string
  unit :: string
  type :: InstrumentType
  valueType :: ValueType

record MetricOptions =
  opt_description :: string
  opt_unit :: string
  opt_valueType :: ValueType

text \<open>
  Modelled from the spec: \<open>MetricCollectorHandle\<close> (MetricCollector.ts) is not among
  the sources. Section 3: a handle is the identity of one export pipeline and its
  preferred temporality, cumulative or delta.
\<close>

datatype AggregationTemporality = CUMULATIVE | DELTA

record MetricCollectorHandle =
  collectorId :: nat
  aggregationTemporality :: AggregationTemporality

text \<open>
  Modelled from the spec: \<open>View\<close> (View.ts) is not among the sources. Section 4.1: a
  view supplies an aggregation override: name, description, attribute keys to keep,
  aggregation with its histogram boundaries. A boundary is a number or \<open>Infinity\<close>
  (\<open>explicitBounds\<close> of the helper \<open>ensureHistogramIsCorrect\<close>).
\<close>

datatype bound = Finite int | Infinity

datatype Aggregation =
  DefaultAggregation | SumAggregation | HistogramAggregation "bound list"

record View =
  view_name :: "string option"
  view_description :: "string option"
  view_attributeKeys :: "string list option"
  view_aggregation :: Aggregation

text \<open>
  The view registry is an object of the shared state; \<open>Meter\<close> only calls its method
  \<open>findViews(descriptor, instrumentationLibrary)\<close>. The class itself is not among the
  sources, so the registry is represented by that method: the properties of \<open>Meter\<close>
  below hold for every view registry.
\<close>

record ViewRegistry =
  findViews :: "InstrumentDescriptor \<Rightarrow> InstrumentationLibrary \<Rightarrow> View list"

text \<open>
  The shared state, with the five fields that \<open>Meter\<close> reads or writes
  (\<open>MeterProviderSharedState.ts\<close> itself is not among the sources; section 2 lists the
  same fields). \<open>meters\<close> holds references to the \<open>Meter\<close> objects.
\<close>

record MeterProviderSharedState =
  resource :: Resource
  sdkStartTime :: HrTime
  viewRegistry :: ViewRegistry
  metricCollectors :: "MetricCollectorHandle list"
  meters :: "MeterRef list"

text \<open>
  Modelled from the spec: \<open>MetricData\<close> (export/MetricData.ts) and the accumulations
  are not among the sources. Section 3: an accumulation is a scalar sum or a histogram
  state (sum, count, per-boundary bucket counts); a point snapshot is
  \<open>{attributes, value-or-histogram, startTime, endTime}\<close>; a metric is
  \<open>{descriptor, resource, instrumentationScope, temporality, points}\<close>.
\<close>

datatype Accumulation =
  Scalar int
  | HistogramState (h_sum: int) (h_count: nat) (h_bucketCounts: "nat list")

record PointSnapshot =
  attributes :: Attributes
  point_value :: Accumulation
  startTime :: HrTime
  endTime :: HrTime

record MetricData =
  descriptor :: InstrumentDescriptor
  md_resource :: Resource
  instrumentationScope :: InstrumentationLibrary
  temporality :: AggregationTemporality
  points :: "PointSnapshot list"


section \<open>Metric storages\<close>

text \<open>
  \<open>MetricStorage.ts\<close> declares the interface every storage implements: a \<open>collect\<close>
  method that returns a promise of \<open>Maybe<MetricData>\<close>, at most one metric per call.
  A promise that fulfils with \<open>v\<close> is \<open>Inr v\<close>, a rejected one is \<open>Inl e\<close>;
  \<open>undefined\<close> is \<open>None\<close>.
\<close>

type_synonym 'a Maybe = "'a option"
type_synonym 'a Promise = "error + 'a"

text \<open>
  Modelled from the spec: the state of a storage (SyncMetricStorage.ts and
  AsyncMetricStorage.ts are not among the sources). Sections 3 and 4.2: a storage holds
  the descriptor it reports under, the aggregation chosen for it, one accumulation per
  attribute set, and one cursor per collector: the time of that collector's last
  collection and, for delta temporality, the accumulations it exported last.
\<close>

datatype Aggregator = SumAggregator | HistogramAggregator "bound list"

record CollectorCursor =
  lastCollected :: HrTime
  baseline :: "(Attributes \<times> Accumulation) list"

record StorageState =
  st_descriptor :: InstrumentDescriptor
  st_attributeKeys :: "string list option"
  st_aggregator :: Aggregator
  st_accumulations :: "(Attributes \<times> Accumulation) list"
  st_cursors :: "(nat \<times> CollectorCursor) list"

text \<open>
  Modelled from the spec: what one invocation of an observable callback does (section
  4.3): it reports zero or more observations, or it throws, or it rejects.
\<close>

datatype CallbackOutcome =
  Observes "(int \<times> Attributes) list" | CallbackThrows error | CallbackRejects error

text \<open>
  An observable callback is user code: what it reports may differ from one invocation to
  the next, so it is a function of the number of earlier invocations, which the
  asynchronous storage counts.
\<close>

type_synonym ObservableCallback = "nat \<Rightarrow> CallbackOutcome"

text \<open>
  Modelled from the spec: the storages a Meter registers are the closed variant of
  section 9: a synchronous storage, or an asynchronous storage with its callback and the
  number of invocations so far.
\<close>

datatype storage =
  SyncMetricStorage StorageState
  | AsyncMetricStorage StorageState ObservableCallback nat

text \<open>
  A JavaScript \<open>Map\<close> keeps its keys in insertion order; \<open>set\<close> on a key that is
  present replaces the value in place, otherwise the entry is appended.
\<close>

fun Map_set :: "('k \<times> 'v) list \<Rightarrow> 'k \<Rightarrow> 'v \<Rightarrow> ('k \<times> 'v) list" where
  "Map_set [] k v = [(k, v)]"
| "Map_set ((k', v') # m) k v =
     (if k' = k then (k, v) # m else (k', v') # Map_set m k v)"

definition Map_get :: "('k \<times> 'v) list \<Rightarrow> 'k \<Rightarrow> 'v option" where
  "Map_get m k = map_of m k"

definition Map_values :: "('k \<times> 'v) list \<Rightarrow> 'v list" where
  "Map_values m = map snd m"

text \<open>
  Modelled from the spec: \<open>createInstrumentDescriptor\<close> (InstrumentDescriptor.ts) is
  not among the sources. The descriptor is the value
  \<open>{name, kind, description, unit, valueType}\<close> of section 3; name and kind are the
  arguments, the other fields come from the options.
\<close>

definition createInstrumentDescriptor ::
  "string \<Rightarrow> InstrumentType \<Rightarrow> MetricOptions \<Rightarrow> InstrumentDescriptor" where
  "createInstrumentDescriptor n k options =
     \<lparr>name = n, description = opt_description options, unit = opt_unit options,
      type = k, valueType = opt_valueType options\<rparr>"

text \<open>
  Modelled from the spec: the default histogram boundaries are not among the sources.
  The value is the default \<open>explicitBounds = [Infinity]\<close> of the helper
  \<open>ensureHistogramIsCorrect\<close>.
\<close>

definition DEFAULT_HISTOGRAM_BOUNDARIES :: "bound list" where
  "DEFAULT_HISTOGRAM_BOUNDARIES = [Infinity]"

text \<open>
  Modelled from the spec: aggregation selection (section 3, Accumulation): a scalar sum
  for counters, a histogram state for histograms, unless the view overrides it.
\<close>

fun selectAggregator :: "Aggregation \<Rightarrow> InstrumentType \<Rightarrow> Aggregator" where
  "selectAggregator SumAggregation k = SumAggregator"
| "selectAggregator (HistogramAggregation bs) k = HistogramAggregator bs"
| "selectAggregator DefaultAggregation HISTOGRAM =
     HistogramAggregator DEFAULT_HISTOGRAM_BOUNDARIES"
| "selectAggregator DefaultAggregation k = SumAggregator"

text \<open>
  Modelled from the spec: a view may rename or relabel the instrument (section 4.1,
  section 4.4); the storage reports under the descriptor with the view's overrides.
\<close>

definition createInstrumentDescriptorWithView ::
  "View \<Rightarrow> InstrumentDescriptor \<Rightarrow> InstrumentDescriptor" where
  "createInstrumentDescriptorWithView view d =
     d\<lparr>name := (case view_name view of None \<Rightarrow> name d | Some n \<Rightarrow> n),
       description :=
         (case view_description view of None \<Rightarrow> description d | Some x \<Rightarrow> x)\<rparr>"

text \<open>
  Modelled from the spec: the state of a new storage: the view's descriptor, attribute
  keys and aggregation, no accumulation and no collector cursor (section 3, Lifecycle:
  accumulations are created lazily).
\<close>

definition newStorageState :: "View \<Rightarrow> InstrumentDescriptor \<Rightarrow> StorageState" where
  "newStorageState view d =
     \<lparr>st_descriptor = createInstrumentDescriptorWithView view d,
      st_attributeKeys = view_attributeKeys view,
      st_aggregator = selectAggregator (view_aggregation view) (type d),
      st_accumulations = [],
      st_cursors = []\<rparr>"

text \<open>
  Modelled from the spec: \<open>SyncMetricStorage.create\<close> (SyncMetricStorage.ts) is not
  among the sources. A new storage has no accumulation and no collector cursor
  (section 3, Lifecycle: accumulations are created lazily on first write).
\<close>

definition SyncMetricStorage_create :: "View \<Rightarrow> InstrumentDescriptor \<Rightarrow> storage" where
  "SyncMetricStorage_create view d = SyncMetricStorage (newStorageState view d)"

text \<open>
  Modelled from the spec: \<open>AsyncMetricStorage.create\<close> (AsyncMetricStorage.ts) is not
  among the sources. The storage wraps the user-supplied callback (section 4.3).
\<close>

definition AsyncMetricStorage_create ::
  "View \<Rightarrow> InstrumentDescriptor \<Rightarrow> ObservableCallback \<Rightarrow> storage" where
  "AsyncMetricStorage_create view d callback =
     AsyncMetricStorage (newStorageState view d) callback 0"

subsection \<open>Write path\<close>

text \<open>
  Modelled from the spec: histogram bucketing (section 4.2, write path): the value goes
  into the bucket whose boundary it falls under; after the configured boundaries the last
  boundary is implicitly plus infinity, so \<open>k\<close> boundaries give \<open>k + 1\<close> buckets.
\<close>

fun below :: "int \<Rightarrow> bound \<Rightarrow> bool" where
  "below v (Finite b) = (v < b)"
| "below v Infinity = True"

fun bucketIndex :: "bound list \<Rightarrow> int \<Rightarrow> nat" where
  "bucketIndex [] v = 0"
| "bucketIndex (b # bs) v = (if below v b then 0 else Suc (bucketIndex bs v))"

text \<open>
  Modelled from the spec: a histogram state before any measurement, and the update of
  sum, count and bucket counts by one measurement (sections 3 and 4.2).
\<close>

definition emptyHistogram :: "bound list \<Rightarrow> Accumulation" where
  "emptyHistogram bs = HistogramState 0 0 (replicate (length bs + 1) 0)"

fun histogramRecord :: "bound list \<Rightarrow> Accumulation \<Rightarrow> int \<Rightarrow> Accumulation" where
  "histogramRecord bs (HistogramState s c counts) v =
     HistogramState (s + v) (c + 1)
       (counts[bucketIndex bs v := counts ! bucketIndex bs v + 1])"
| "histogramRecord bs (Scalar s) v = Scalar s"

text \<open>
  Modelled from the spec: updating an accumulation by one measurement (section 4.2): a
  sum for counters and up-down counters, sum, count and bucket update for histograms.
  An accumulation of a storage is only ever created by the storage's own aggregator, so
  the mixed cases do not arise; there the measurement starts a fresh accumulation.
\<close>

fun aggregate :: "Aggregator \<Rightarrow> Accumulation option \<Rightarrow> int \<Rightarrow> Accumulation" where
  "aggregate SumAggregator (Some (Scalar s)) v = Scalar (s + v)"
| "aggregate SumAggregator acc v = Scalar v"
| "aggregate (HistogramAggregator bs) (Some (HistogramState s c counts)) v =
     histogramRecord bs (HistogramState s c counts) v"
| "aggregate (HistogramAggregator bs) acc v = histogramRecord bs (emptyHistogram bs) v"

text \<open>
  Modelled from the spec: attribute-set identity (section 3): two attribute sets with the
  same key/value pairs in any order are the same bucket.
\<close>

fun lookupBucket :: "(Attributes \<times> 'a) list \<Rightarrow> Attributes \<Rightarrow> 'a option" where
  "lookupBucket [] a = None"
| "lookupBucket ((a', x) # bs) a = (if set a' = set a then Some x else lookupBucket bs a)"

fun updateBucket ::
  "(Attributes \<times> 'a) list \<Rightarrow> Attributes \<Rightarrow> ('a option \<Rightarrow> 'a) \<Rightarrow> (Attributes \<times> 'a) list" where
  "updateBucket [] a f = [(a, f None)]"
| "updateBucket ((a', x) # bs) a f =
     (if set a' = set a then (a', f (Some x)) # bs else (a', x) # updateBucket bs a f)"

text \<open>
  Modelled from the spec: the attribute keys a view keeps (section 4.1), and the write
  into the state of a storage: filter the attributes, locate or create the accumulation,
  update it (section 4.2).
\<close>

definition filterAttributes :: "string list option \<Rightarrow> Attributes \<Rightarrow> Attributes" where
  "filterAttributes keys a =
     (case keys of None \<Rightarrow> a | Some ks \<Rightarrow> filter (\<lambda>kv. fst kv \<in> set ks) a)"

definition StorageState_record :: "StorageState \<Rightarrow> int \<Rightarrow> Attributes \<Rightarrow> StorageState" where
  "StorageState_record s v a =
     s\<lparr>st_accumulations :=
         updateBucket (st_accumulations s) (filterAttributes (st_attributeKeys s) a)
           (\<lambda>acc. aggregate (st_aggregator s) acc v)\<rparr>"

text \<open>
  Modelled from the spec: the write path of \<open>SyncMetricStorage\<close> (section 4.2): locate
  or create the accumulation of the attribute set and update it. Only synchronous
  storages are writable; an asynchronous storage is never behind a writable handle.
\<close>

fun storage_record :: "storage \<Rightarrow> int \<Rightarrow> Attributes \<Rightarrow> storage" where
  "storage_record (SyncMetricStorage s) v a = SyncMetricStorage (StorageState_record s v a)"
| "storage_record (AsyncMetricStorage s callback n) v a = AsyncMetricStorage s callback n"

subsection \<open>Collect path\<close>

text \<open>
  Modelled from the spec: the delta of an accumulation against the value at the
  collector's previous collection (section 4.2); with no previous value the delta is the
  current value.
\<close>

fun diffAccumulation :: "Accumulation \<Rightarrow> Accumulation option \<Rightarrow> Accumulation" where
  "diffAccumulation (Scalar c) (Some (Scalar b)) = Scalar (c - b)"
| "diffAccumulation (HistogramState s c counts) (Some (HistogramState s' c' counts')) =
     HistogramState (s - s') (c - c') (map2 (-) counts counts')"
| "diffAccumulation cur prev = cur"

text \<open>
  Modelled from the spec: the collect path of section 4.2. For the calling collector each
  accumulation gives one point with \<open>startTime\<close> the collector's last collection time
  (\<open>sdkStartTime\<close> on its first collection) and \<open>endTime = collectionTime\<close>. Cumulative
  temporality reports the running total and leaves the accumulation untouched; delta
  reports current minus the collector's baseline and advances the baseline. With no
  attribute-set bucket the result is \<open>undefined\<close>. The cursors are kept per collector.
\<close>

definition snapshot ::
  "StorageState \<Rightarrow> MetricCollectorHandle \<Rightarrow> MetricCollectorHandle list \<Rightarrow> Resource \<Rightarrow>
   InstrumentationLibrary \<Rightarrow> HrTime \<Rightarrow> HrTime \<Rightarrow> MetricData Maybe \<times> StorageState" where
  "snapshot s collector collectors res lib sdkStart collectionTime =
     (if st_accumulations s = [] then (None, s)
      else
        let cur = map_of (st_cursors s) (collectorId collector);
            start = (case cur of None \<Rightarrow> sdkStart | Some c \<Rightarrow> lastCollected c);
            base = (case cur of None \<Rightarrow> [] | Some c \<Rightarrow> baseline c);
            pts = map (\<lambda>(a, acc).
                    \<lparr>attributes = a,
                     point_value =
                       (case aggregationTemporality collector of
                          CUMULATIVE \<Rightarrow> acc
                        | DELTA \<Rightarrow> diffAccumulation acc (lookupBucket base a)),
                     startTime = start, endTime = collectionTime\<rparr>)
                  (st_accumulations s)
        in (Some \<lparr>descriptor = st_descriptor s, md_resource = res,
                  instrumentationScope = lib,
                  temporality = aggregationTemporality collector, points = pts\<rparr>,
            s\<lparr>st_cursors :=
                Map_set (st_cursors s) (collectorId collector)
                  \<lparr>lastCollected = collectionTime, baseline = st_accumulations s\<rparr>\<rparr>))"

text \<open>
  Modelled from the spec: the observations of one callback invocation replace the whole
  per-attribute-set state (section 4.3); a duplicate attribute set is last-write-wins.
\<close>

fun observe ::
  "Aggregator \<Rightarrow> (int \<times> Attributes) list \<Rightarrow> (Attributes \<times> Accumulation) list \<Rightarrow>
   (Attributes \<times> Accumulation) list" where
  "observe agg [] accs = accs"
| "observe agg ((v, a) # obs) accs =
     observe agg obs (updateBucket accs a (\<lambda>prev. aggregate agg None v))"

text \<open>
  Modelled from the spec: \<open>collect\<close> of the two storages (sections 4.2 and 4.3), behind
  the interface of \<open>MetricStorage.ts\<close>. A synchronous storage never fails. An
  asynchronous storage invokes its callback; a callback that throws or rejects makes the
  storage's \<open>collect\<close> fail, a collection-time error for that instrument.
\<close>

fun MetricStorage_collect ::
  "storage \<Rightarrow> MetricCollectorHandle \<Rightarrow> MetricCollectorHandle list \<Rightarrow> Resource \<Rightarrow>
   InstrumentationLibrary \<Rightarrow> HrTime \<Rightarrow> HrTime \<Rightarrow> (MetricData Maybe) Promise \<times> storage" where
  "MetricStorage_collect (SyncMetricStorage s) collector collectors res lib sdkStart t =
     (let (md, s') = snapshot s collector collectors res lib sdkStart t
      in (Inr md, SyncMetricStorage s'))"
| "MetricStorage_collect (AsyncMetricStorage s callback n) collector collectors res lib sdkStart t =
     (case callback n of
        CallbackThrows e \<Rightarrow> (Inl e, AsyncMetricStorage s callback (Suc n))
      | CallbackRejects e \<Rightarrow> (Inl e, AsyncMetricStorage s callback (Suc n))
      | Observes obs \<Rightarrow>
          (let s1 = s\<lparr>st_accumulations :=
                       observe (st_aggregator s)
                         (map (\<lambda>(v, a). (v, filterAttributes (st_attributeKeys s) a)) obs) []\<rparr>;
               (md, s2) = snapshot s1 collector collectors res lib sdkStart t
           in (Inr md, AsyncMetricStorage s2 callback (Suc n))))"


section \<open>Writable handles and instruments\<close>

text \<open>
  \<open>_registerMetricStorage\<close> returns either the one storage it created or a
  \<open>new MultiMetricStorage(storages)\<close>; the instrument keeps that reference. A
  \<open>MultiMetricStorage\<close> only holds the list of its backing storages, so it is a value.
\<close>

datatype WritableMetricStorage = StorageRef addr | MultiMetricStorage "addr list"

text \<open>
  Modelled from the spec: \<open>MultiMetricStorage\<close> (MultiWritableMetricStorage.ts) is not
  among the sources. A write through it fans out to every backing storage, in order
  (section 2); a write through a single storage updates that storage.
\<close>

definition writeAt :: "int \<Rightarrow> Attributes \<Rightarrow> addr \<Rightarrow> storage list \<Rightarrow> storage list" where
  "writeAt v a x h = h[x := storage_record (h ! x) v a]"

fun WritableMetricStorage_record ::
  "WritableMetricStorage \<Rightarrow> storage list \<Rightarrow> int \<Rightarrow> Attributes \<Rightarrow> storage list" where
  "WritableMetricStorage_record (StorageRef x) h v a = writeAt v a x h"
| "WritableMetricStorage_record (MultiMetricStorage xs) h v a = fold (writeAt v a) xs h"

text \<open>
  Modelled from the spec: the instruments \<open>Counter\<close>, \<open>UpDownCounter\<close> and
  \<open>Histogram\<close> (Instruments.ts) are not among the sources. \<open>Meter\<close> constructs each
  from the writable storage and the descriptor.
\<close>

datatype Instrument =
  Counter WritableMetricStorage InstrumentDescriptor
  | UpDownCounter WritableMetricStorage InstrumentDescriptor
  | Histogram WritableMetricStorage InstrumentDescriptor

fun writableMetricStorage :: "Instrument \<Rightarrow> WritableMetricStorage" where
  "writableMetricStorage (Counter w d) = w"
| "writableMetricStorage (UpDownCounter w d) = w"
| "writableMetricStorage (Histogram w d) = w"

text \<open>
  Modelled from the spec: the instrument write API (Instruments.ts) is not among the
  sources. \<open>counter.add\<close> rejects a negative value at the call and leaves the
  accumulated state as it is; up-down counters take negative deltas (sections 4.2, 7).
\<close>

fun Instrument_write ::
  "Instrument \<Rightarrow> storage list \<Rightarrow> int \<Rightarrow> Attributes \<Rightarrow> error + storage list" where
  "Instrument_write (Counter w d) h v a =
     (if v < 0 then Inl (Error ''negative value on a monotonic counter'')
      else Inr (WritableMetricStorage_record w h v a))"
| "Instrument_write (UpDownCounter w d) h v a = Inr (WritableMetricStorage_record w h v a)"
| "Instrument_write (Histogram w d) h v a = Inr (WritableMetricStorage_record w h v a)"

section \<open>The view registry of the spec\<close>

text \<open>
  Modelled from the spec: view selection (section 4.1; ViewRegistry.ts is not among the
  sources): a registered view matches on instrument name (exact or wildcard), on
  instrument kind and optionally on the requesting scope. The default view uses the
  descriptor as it is, with default aggregation.
\<close>

datatype NamePattern = ExactName string | Wildcard

record RegisteredView =
  selector_name :: NamePattern
  selector_type :: "InstrumentType option"
  selector_meter :: "string option"
  registered_view :: View

definition DEFAULT_VIEW :: View where
  "DEFAULT_VIEW =
     \<lparr>view_name = None, view_description = None, view_attributeKeys = None,
      view_aggregation = DefaultAggregation\<rparr>"

definition matchView ::
  "RegisteredView \<Rightarrow> InstrumentDescriptor \<Rightarrow> InstrumentationLibrary \<Rightarrow> bool" where
  "matchView rv d lib =
     ((case selector_name rv of Wildcard \<Rightarrow> True | ExactName n \<Rightarrow> n = name d)
      \<and> (case selector_type rv of None \<Rightarrow> True | Some k \<Rightarrow> k = type d)
      \<and> (case selector_meter rv of None \<Rightarrow> True | Some n \<Rightarrow> n = lib_name lib))"

text \<open>
  Modelled from the spec: \<open>ViewRegistry\<close> (ViewRegistry.ts) is not among the sources.
  A view matches on instrument name (exact or wildcard), instrument kind and optionally
  the requesting scope; matching keeps the registration order; if zero explicit views
  match, one default view is synthesized (section 4.1).
\<close>

definition ViewRegistry_of :: "RegisteredView list \<Rightarrow> ViewRegistry" where
  "ViewRegistry_of rvs =
     \<lparr>findViews = (\<lambda>d lib.
        (case map registered_view (filter (\<lambda>rv. matchView rv d lib) rvs) of
           [] \<Rightarrow> [DEFAULT_VIEW]
         | v # vs \<Rightarrow> v # vs))\<rparr>"

section \<open>Meter\<close>

text \<open>
  \<open>Meter\<close> has three private fields. \<open>_meterProviderSharedState\<close> is a reference to
  the one shared state of the provider, which the functions below take as an argument;
  the other two are the fields of the record. The store of storages is passed and
  returned explicitly.
\<close>

record Meter =
  metricStorageRegistry :: "(string \<times> addr) list"
  instrumentationLibrary :: InstrumentationLibrary

text \<open>
  The constructor runs on the freshly allocated object \<open>this\<close>:
  \<open>this._meterProviderSharedState.meters.push(this)\<close>.
\<close>

definition Meter_constructor ::
  "MeterRef \<Rightarrow> MeterProviderSharedState \<Rightarrow> InstrumentationLibrary \<Rightarrow>
   Meter \<times> MeterProviderSharedState" where
  "Meter_constructor this st lib =
     (\<lparr>metricStorageRegistry = [], instrumentationLibrary = lib\<rparr>,
      st\<lparr>meters := meters st @ [this]\<rparr>)"

text \<open>
  The body shared by \<open>views.map(view => ...)\<close> of \<open>_registerMetricStorage\<close> and
  \<open>views.forEach(view => ...)\<close> of \<open>_registerAsyncMetricStorage\<close>: for each view, in
  order, create a storage (a new object, at the next free address of the store) and
  \<open>this._metricStorageRegistry.set(descriptor.name, storage)\<close>. The result lists the
  created storages.
\<close>

fun registerEach ::
  "(View \<Rightarrow> storage) \<Rightarrow> View list \<Rightarrow> string \<Rightarrow> (string \<times> addr) list \<Rightarrow> storage list \<Rightarrow>
   addr list \<times> (string \<times> addr) list \<times> storage list" where
  "registerEach create [] key reg h = ([], reg, h)"
| "registerEach create (view # views) key reg h =
     (let storage = length h;
          h1 = h @ [create view];
          reg1 = Map_set reg key storage;
          (storages, reg2, h2) = registerEach create views key reg1 h1
      in (storage # storages, reg2, h2))"

definition registerMetricStorage ::
  "MeterProviderSharedState \<Rightarrow> Meter \<Rightarrow> storage list \<Rightarrow> InstrumentDescriptor \<Rightarrow>
   WritableMetricStorage \<times> Meter \<times> storage list" where
  "registerMetricStorage st m h d =
     (let views = findViews (viewRegistry st) d (instrumentationLibrary m);
          (storages, reg, h') =
             registerEach (\<lambda>view. SyncMetricStorage_create view d) views (name d)
               (metricStorageRegistry m) h
      in ((if length storages = 1 then StorageRef (storages ! 0)
           else MultiMetricStorage storages),
          m\<lparr>metricStorageRegistry := reg\<rparr>, h'))"

definition registerAsyncMetricStorage ::
  "MeterProviderSharedState \<Rightarrow> Meter \<Rightarrow> storage list \<Rightarrow> InstrumentDescriptor \<Rightarrow>
   ObservableCallback \<Rightarrow> Meter \<times> storage list" where
  "registerAsyncMetricStorage st m h d callback =
     (let views = findViews (viewRegistry st) d (instrumentationLibrary m);
          (storages, reg, h') =
             registerEach (\<lambda>view. AsyncMetricStorage_create view d callback) views (name d)
               (metricStorageRegistry m) h
      in (m\<lparr>metricStorageRegistry := reg\<rparr>, h'))"

definition createHistogram ::
  "MeterProviderSharedState \<Rightarrow> Meter \<Rightarrow> storage list \<Rightarrow> string \<Rightarrow> MetricOptions \<Rightarrow>
   Instrument \<times> Meter \<times> storage list" where
  "createHistogram st m h n options =
     (let d = createInstrumentDescriptor n HISTOGRAM options;
          (storage, m', h') = registerMetricStorage st m h d
      in (Histogram storage d, m', h'))"

definition createCounter ::
  "MeterProviderSharedState \<Rightarrow> Meter \<Rightarrow> storage list \<Rightarrow> string \<Rightarrow> MetricOptions \<Rightarrow>
   Instrument \<times> Meter \<times> storage list" where
  "createCounter st m h n options =
     (let d = createInstrumentDescriptor n COUNTER options;
          (storage, m', h') = registerMetricStorage st m h d
      in (Counter storage d, m', h'))"

definition createUpDownCounter ::
  "MeterProviderSharedState \<Rightarrow> Meter \<Rightarrow> storage list \<Rightarrow> string \<Rightarrow> MetricOptions \<Rightarrow>
   Instrument \<times> Meter \<times> storage list" where
  "createUpDownCounter st m h n options =
     (let d = createInstrumentDescriptor n UP_DOWN_COUNTER options;
          (storage, m', h') = registerMetricStorage st m h d
      in (UpDownCounter storage d, m', h'))"


definition createObservableCounter ::
  "MeterProviderSharedState \<Rightarrow> Meter \<Rightarrow> storage list \<Rightarrow> string \<Rightarrow> ObservableCallback \<Rightarrow>
   MetricOptions \<Rightarrow> Meter \<times> storage list" where
  "createObservableCounter st m h n callback options =
     registerAsyncMetricStorage st m h
       (createInstrumentDescriptor n OBSERVABLE_COUNTER options) callback"

definition createObservableUpDownCounter ::
  "MeterProviderSharedState \<Rightarrow> Meter \<Rightarrow> storage list \<Rightarrow> string \<Rightarrow> ObservableCallback \<Rightarrow>
   MetricOptions \<Rightarrow> Meter \<times> storage list" where
  "createObservableUpDownCounter st m h n callback options =
     registerAsyncMetricStorage st m h
       (createInstrumentDescriptor n OBSERVABLE_UP_DOWN_COUNTER options) callback"

subsection \<open>Collection\<close>

text \<open>
  \<open>Array.from(registry.values()).map(metricStorage => metricStorage.collect(...))\<close>
  calls \<open>collect\<close> on every registered storage, in the order of the registry. Each call
  may update the storage it is called on, and only that one; so the calls, which run
  concurrently once they reach an \<open>await\<close>, can be taken one after the other.
\<close>

fun collectEach ::
  "(storage \<Rightarrow> 'r \<times> storage) \<Rightarrow> addr list \<Rightarrow> storage list \<Rightarrow> 'r list \<times> storage list" where
  "collectEach f [] h = ([], h)"
| "collectEach f (x # xs) h =
     (let (r, s') = f (h ! x);
          (rs, h') = collectEach f xs (h[x := s'])
      in (r # rs, h'))"

text \<open>
  \<open>Promise.all\<close> fulfils with the list of all values when every promise fulfils, and
  rejects as soon as one promise rejects. Which rejection comes first is a matter of
  timing; the embedding takes the first one in list order, and no theorem below depends
  on which reason is reported.
\<close>

fun Promise_all :: "('a Promise) list \<Rightarrow> ('a list) Promise" where
  "Promise_all [] = Inr []"
| "Promise_all (Inl e # ps) = Inl e"
| "Promise_all (Inr v # ps) =
     (case Promise_all ps of Inl e \<Rightarrow> Inl e | Inr vs \<Rightarrow> Inr (v # vs))"

text \<open>
  Modelled from the spec: \<open>isNotNullish\<close> (utils.ts) is not among the sources; it is
  the predicate with which empty (\<open>undefined\<close>) results are discarded (section 4.5).
\<close>

definition isNotNullish :: "'a Maybe \<Rightarrow> bool" where
  "isNotNullish item = (item \<noteq> None)"

text \<open>
  \<open>Meter.collect\<close>. The result of \<open>result.filter(isNotNullish)\<close> is kept at the type
  of its elements at run time, \<open>Maybe<MetricData>\<close>, so that the absence of
  \<open>undefined\<close> entries is a property to prove and not a matter of typing.
\<close>

definition Meter_collect ::
  "MeterProviderSharedState \<Rightarrow> Meter \<Rightarrow> storage list \<Rightarrow> MetricCollectorHandle \<Rightarrow> HrTime \<Rightarrow>
   ((MetricData Maybe) list) Promise \<times> storage list" where
  "Meter_collect st m h collector collectionTime =
     (let (promises, h') =
            collectEach
              (\<lambda>metricStorage.
                 MetricStorage_collect metricStorage collector (metricCollectors st)
                   (resource st) (instrumentationLibrary m) (sdkStartTime st) collectionTime)
              (Map_values (metricStorageRegistry m)) h
      in (case Promise_all promises of
            Inl e \<Rightarrow> (Inl e, h')
          | Inr result \<Rightarrow> (Inr (filter isNotNullish result), h')))"

text \<open>
  A reference of the program always points to an object: every address in the registry
  of a meter is an address of the store, and every storage is registered once.
\<close>

definition wf_meter :: "Meter \<Rightarrow> storage list \<Rightarrow> bool" where
  "wf_meter m h =
     (distinct (map fst (metricStorageRegistry m))
      \<and> distinct (Map_values (metricStorageRegistry m))
      \<and> list_all (\<lambda>x. x < length h) (Map_values (metricStorageRegistry m)))"

text \<open>
  What \<open>Meter.collect\<close> gets back from the storage at address \<open>x\<close>: the promise of
  \<open>metricStorage.collect(collector, metricCollectors, resource, instrumentationLibrary,
  sdkStartTime, collectionTime)\<close>.
\<close>

definition storageResult ::
  "MeterProviderSharedState \<Rightarrow> Meter \<Rightarrow> storage list \<Rightarrow> MetricCollectorHandle \<Rightarrow> HrTime \<Rightarrow>
   addr \<Rightarrow> (MetricData Maybe) Promise" where
  "storageResult st m h collector collectionTime x =
     fst (MetricStorage_collect (h ! x) collector (metricCollectors st) (resource st)
            (instrumentationLibrary m) (sdkStartTime st) collectionTime)"


section \<open>Operations used to state the properties\<close>

text \<open>
  The three methods that create a synchronous instrument, each with the kind it passes
  to \<open>createInstrumentDescriptor\<close>.
\<close>

definition syncCreators ::
  "((MeterProviderSharedState \<Rightarrow> Meter \<Rightarrow> storage list \<Rightarrow> string \<Rightarrow> MetricOptions \<Rightarrow>
     Instrument \<times> Meter \<times> storage list) \<times> InstrumentType) set" where
  "syncCreators =
     {(createCounter, COUNTER), (createUpDownCounter, UP_DOWN_COUNTER),
      (createHistogram, HISTOGRAM)}"

text \<open>
  A registration is a call of \<open>_registerMetricStorage\<close> or of
  \<open>_registerAsyncMetricStorage\<close>; \<open>register\<close> runs it and keeps the state.
\<close>

datatype Registration =
  RegisterSync InstrumentDescriptor
  | RegisterAsync InstrumentDescriptor ObservableCallback

fun registrationDescriptor :: "Registration \<Rightarrow> InstrumentDescriptor" where
  "registrationDescriptor (RegisterSync d) = d"
| "registrationDescriptor (RegisterAsync d callback) = d"

fun registrationCreate :: "Registration \<Rightarrow> View \<Rightarrow> storage" where
  "registrationCreate (RegisterSync d) view = SyncMetricStorage_create view d"
| "registrationCreate (RegisterAsync d callback) view = AsyncMetricStorage_create view d callback"

fun register ::
  "MeterProviderSharedState \<Rightarrow> Registration \<Rightarrow> Meter \<times> storage list \<Rightarrow> Meter \<times> storage list" where
  "register st (RegisterSync d) (m, h) =
     (let (w, m', h') = registerMetricStorage st m h d in (m', h'))"
| "register st (RegisterAsync d callback) (m, h) = registerAsyncMetricStorage st m h d callback"

fun writeAll ::
  "Instrument \<Rightarrow> storage list \<Rightarrow> (int \<times> Attributes) list \<Rightarrow> error + storage list" where
  "writeAll i h [] = Inr h"
| "writeAll i h ((v, a) # ws) =
     (case Instrument_write i h v a of Inl e \<Rightarrow> Inl e | Inr h' \<Rightarrow> writeAll i h' ws)"

text \<open>
  Every entry of the registry whose storage lies in the address range from \<open>lo\<close> up
  to \<open>hi\<close> is registered under \<open>key\<close>.
\<close>

definition onlyUnder :: "nat \<Rightarrow> nat \<Rightarrow> string \<Rightarrow> (string \<times> addr) list \<Rightarrow> bool" where
  "onlyUnder lo hi key reg = (\<forall>kv \<in> set reg. lo \<le> snd kv \<and> snd kv < hi \<longrightarrow> fst kv = key)"

subsection \<open>Concrete runs\<close>

text \<open>
  The runs follow the test fixtures: the meter \<open>getMeter('default', '0.0.1')\<close>, integer
  instruments with unit \<open>'1'\<close>, the histogram \<open>int-histogram\<close>.
\<close>

definition example_options :: MetricOptions where
  "example_options =
     \<lparr>opt_description = ''sample description'', opt_unit = ''1'',
      opt_valueType = ValueType_INT\<rparr>"

definition example_library :: InstrumentationLibrary where
  "example_library = \<lparr>lib_name = ''default'', lib_version = ''0.0.1''\<rparr>"

definition example_collector :: MetricCollectorHandle where
  "example_collector = \<lparr>collectorId = 0, aggregationTemporality = CUMULATIVE\<rparr>"

definition example_sharedState :: "ViewRegistry \<Rightarrow> MeterProviderSharedState" where
  "example_sharedState registry =
     \<lparr>resource = [(''service'', ''ui'')], sdkStartTime = (1, 0), viewRegistry = registry,
      metricCollectors = [example_collector], meters = []\<rparr>"

definition example_meter :: Meter where
  "example_meter =
     fst (Meter_constructor 0 (example_sharedState (ViewRegistry_of [])) example_library)"

definition viewFor :: "string \<Rightarrow> string option \<Rightarrow> Aggregation \<Rightarrow> RegisteredView" where
  "viewFor n rename agg =
     \<lparr>selector_name = ExactName n, selector_type = None, selector_meter = None,
      registered_view =
        \<lparr>view_name = rename, view_description = None, view_attributeKeys = None,
         view_aggregation = agg\<rparr>\<rparr>"

text \<open>
  An observable gauge \<open>A\<close> whose callback throws and a counter \<open>B\<close> with one
  measurement: the state before a collection.
\<close>

definition failingCallback :: ObservableCallback where
  "failingCallback n = CallbackThrows (Error ''observable callback failed'')"


text \<open>
  A counter \<open>requests\<close> that matches two views, which rename it to \<open>requests_a\<close>
  and \<open>requests_b\<close>, with one measurement: the state before a collection.
\<close>

definition twoViews :: ViewRegistry where
  "twoViews =
     ViewRegistry_of
       [viewFor ''requests'' (Some ''requests_a'') SumAggregation,
        viewFor ''requests'' (Some ''requests_b'') SumAggregation]"

definition twoViewsRun :: "Meter \<times> storage list" where
  "twoViewsRun =
     (let st = example_sharedState twoViews;
          (i, m, h) = createCounter st example_meter [] ''requests'' example_options
      in case Instrument_write i h 5 [] of Inl e \<Rightarrow> (m, h) | Inr h' \<Rightarrow> (m, h'))"



text \<open>A counter that is created and never written: the state before a collection.\<close>

definition unwrittenRun :: "Meter \<times> storage list" where
  "unwrittenRun =
     (let st = example_sharedState (ViewRegistry_of []);
          (i, m, h) = createCounter st example_meter [] ''requests'' example_options
      in (m, h))"


text \<open>
  A histogram \<open>int-histogram\<close> with the given explicit boundaries, the given values
  recorded under the empty attribute set, then one collection: the values of the points
  of every metric returned.
\<close>

definition histogramRun ::
  "bound list \<Rightarrow> int list \<Rightarrow> ((Accumulation list) Maybe list) Promise" where
  "histogramRun boundaries vs =
     (let st = example_sharedState
                 (ViewRegistry_of [viewFor ''int-histogram'' None (HistogramAggregation boundaries)]);
          (i, m, h) = createHistogram st example_meter [] ''int-histogram'' example_options
      in case writeAll i h (map (\<lambda>v. (v, [])) vs) of
           Inl e \<Rightarrow> Inl e
         | Inr h' \<Rightarrow>
             map_sum id (map (map_option (\<lambda>md. map point_value (points md))))
               (fst (Meter_collect st m h' example_collector (2, 0))))"


section \<open>Auxiliary facts\<close>

subsection \<open>The registry and the store\<close>

lemma Map_set_twice: "Map_set (Map_set m k a) k b = Map_set m k b"
  by (induction m) auto

lemma map_of_Map_set: "map_of (Map_set m k v) k' = (if k' = k then Some v else map_of m k')"
  by (induction m) auto

lemma keys_Map_set: "fst ` set (Map_set m k v) = insert k (fst ` set m)"
proof (induction m)
  case Nil
  show ?case by simp
next
  case (Cons kv m)
  show ?case
  proof (cases "fst kv = k")
    case True
    then show ?thesis by (cases kv) simp
  next
    case False
    then show ?thesis by (cases kv) (simp add: Cons.IH insert_commute)
  qed
qed

lemma distinct_keys_Map_set: "distinct (map fst m) \<Longrightarrow> distinct (map fst (Map_set m k v))"
proof (induction m)
  case Nil
  show ?case by simp
next
  case (Cons kv m)
  then show ?case
    using keys_Map_set [of m k v] by (cases kv) auto
qed

lemma set_Map_set:
  "distinct (map fst m) \<Longrightarrow> set (Map_set m k v) = insert (k, v) {kv \<in> set m. fst kv \<noteq> k}"
proof (induction m)
  case Nil
  show ?case by simp
next
  case (Cons kv m)
  then show ?case by (cases kv) (force simp: image_iff)
qed

lemma registerEach_eq:
  "registerEach create views key reg h =
     ([length h ..< length h + length views],
      (if views = [] then reg else Map_set reg key (length h + length views - 1)),
      h @ map create views)"
proof (induction views arbitrary: reg h)
  case Nil
  show ?case by simp
next
  case (Cons view views)
  show ?case
    by (cases "views = []") (simp_all add: Cons.IH Map_set_twice upt_conv_Cons Let_def del: upt.simps)
qed

lemma collectEach_results:
  "distinct xs \<Longrightarrow> fst (collectEach f xs h) = map (\<lambda>x. fst (f (h ! x))) xs"
proof (induction xs arbitrary: h)
  case Nil
  show ?case by simp
next
  case (Cons x xs)
  have "map (\<lambda>y. fst (f (h[x := s] ! y))) xs = map (\<lambda>y. fst (f (h ! y))) xs" for s
  proof (rule map_cong [OF refl])
    fix y assume "y \<in> set xs"
    with Cons.prems have "y \<noteq> x" by auto
    then show "fst (f (h[x := s] ! y)) = fst (f (h ! y))" by simp
  qed
  with Cons show ?case by (simp add: split_beta Let_def)
qed

lemma collectEach_untouched:
  "y \<notin> set xs \<Longrightarrow> snd (collectEach f xs h) ! y = h ! y"
  by (induction xs arbitrary: h) (auto simp: split_beta Let_def)

lemma collectEach_length: "length (snd (collectEach f xs h)) = length h"
  by (induction xs arbitrary: h) (auto simp: split_beta Let_def)


lemma Promise_all_map_Inr: "Promise_all (map Inr vs) = Inr vs"
  by (induction vs) simp_all

lemma Promise_all_Inr: "Promise_all ps = Inr vs \<longleftrightarrow> ps = map Inr vs"
proof
  show "Promise_all ps = Inr vs \<Longrightarrow> ps = map Inr vs"
    by (induction ps arbitrary: vs rule: Promise_all.induct) (auto split: sum.splits)
next
  show "ps = map Inr vs \<Longrightarrow> Promise_all ps = Inr vs"
    by (simp add: Promise_all_map_Inr)
qed

subsection \<open>Collection\<close>

lemma Meter_collect_fst:
  "distinct (Map_values (metricStorageRegistry m)) \<Longrightarrow>
   fst (Meter_collect st m h c t) =
     (case Promise_all (map (storageResult st m h c t) (Map_values (metricStorageRegistry m))) of
        Inl e \<Rightarrow> Inl e
      | Inr result \<Rightarrow> Inr (filter isNotNullish result))"
proof -
  assume d: "distinct (Map_values (metricStorageRegistry m))"
  have e: "storageResult st m h c t =
      (\<lambda>x. fst (MetricStorage_collect (h ! x) c (metricCollectors st) (resource st)
               (instrumentationLibrary m) (sdkStartTime st) t))"
    by (rule ext) (simp add: storageResult_def)
  show ?thesis
    using collectEach_results [OF d,
        of "\<lambda>s. MetricStorage_collect s c (metricCollectors st) (resource st)
               (instrumentationLibrary m) (sdkStartTime st) t" h]
    by (simp add: Meter_collect_def e split_beta split: sum.splits)
qed

lemma Meter_collect_snd:
  "snd (Meter_collect st m h c t) =
     snd (collectEach
            (\<lambda>s. MetricStorage_collect s c (metricCollectors st) (resource st)
                   (instrumentationLibrary m) (sdkStartTime st) t)
            (Map_values (metricStorageRegistry m)) h)"
  by (simp add: Meter_collect_def split_beta split: sum.splits)



lemma Meter_collect_untouched:
  "x \<notin> set (Map_values (metricStorageRegistry m)) \<Longrightarrow> snd (Meter_collect st m h c t) ! x = h ! x"
  by (simp add: Meter_collect_snd collectEach_untouched)



subsection \<open>Writes\<close>




lemma fold_writeAt_length: "length (fold (writeAt v a) xs h) = length h"
  by (induction xs arbitrary: h) (simp_all add: writeAt_def)



subsection \<open>Registration\<close>

lemma values_Map_set_subset: "set (map snd (Map_set m k v)) \<subseteq> insert v (set (map snd m))"
proof (induction m)
  case Nil
  show ?case by simp
next
  case (Cons kv m)
  then show ?case by (cases kv) (simp, blast)
qed

lemma distinct_values_Map_set:
  "distinct (map snd m) \<Longrightarrow> v \<notin> set (map snd m) \<Longrightarrow> distinct (map snd (Map_set m k v))"
proof (induction m)
  case Nil
  show ?case by simp
next
  case (Cons kv m)
  then show ?case
    using values_Map_set_subset [of m k v] by (cases kv) auto
qed


lemma register_eq:
  "register st r (m, h) =
     (let d = registrationDescriptor r;
          views = findViews (viewRegistry st) d (instrumentationLibrary m)
      in (m\<lparr>metricStorageRegistry :=
              (if views = [] then metricStorageRegistry m
               else Map_set (metricStorageRegistry m) (name d) (length h + length views - 1))\<rparr>,
          h @ map (registrationCreate r) views))"
proof (cases r)
  case (RegisterSync d)
  have "(\<lambda>view. SyncMetricStorage_create view d) = registrationCreate r"
    by (rule ext) (simp add: RegisterSync)
  then show ?thesis
    by (simp add: RegisterSync registerMetricStorage_def registerEach_eq Let_def)
next
  case (RegisterAsync d callback)
  have "(\<lambda>view. AsyncMetricStorage_create view d callback) = registrationCreate r"
    by (rule ext) (simp add: RegisterAsync)
  then show ?thesis
    by (simp add: RegisterAsync registerAsyncMetricStorage_def registerEach_eq Let_def)
qed

lemma register_library:
  "instrumentationLibrary (fst (register st r (m, h))) = instrumentationLibrary m"
  by (simp add: register_eq Let_def)

lemma register_length: "length h \<le> length (snd (register st r (m, h)))"
  by (simp add: register_eq Let_def)

lemma register_wf:
  assumes "wf_meter m h"
  shows "wf_meter (fst (register st r (m, h))) (snd (register st r (m, h)))"
proof -
  let ?d = "registrationDescriptor r"
  let ?views = "findViews (viewRegistry st) ?d (instrumentationLibrary m)"
  let ?reg = "metricStorageRegistry m"
  let ?x = "length h + length ?views - 1"
  show ?thesis
  proof (cases "?views = []")
    case True
    with assms show ?thesis by (simp add: register_eq Let_def wf_meter_def)
  next
    case False
    from assms have b: "\<forall>y \<in> set (map snd ?reg). y < length h"
      by (simp add: wf_meter_def Map_values_def list_all_iff)
    from False have x: "length h \<le> ?x" "?x < length h + length ?views"
      by (cases ?views; simp)+
    with b have fresh: "?x \<notin> set (map snd ?reg)" by auto
    have "distinct (map fst (Map_set ?reg (name ?d) ?x))"
      using assms by (simp add: wf_meter_def distinct_keys_Map_set)
    moreover have "distinct (map snd (Map_set ?reg (name ?d) ?x))"
      using assms fresh by (simp add: wf_meter_def Map_values_def distinct_values_Map_set)
    moreover have "\<forall>y \<in> set (map snd (Map_set ?reg (name ?d) ?x)). y < length h + length ?views"
      using values_Map_set_subset [of ?reg "name ?d" ?x] b x by fastforce
    ultimately show ?thesis
      using False by (simp add: register_eq Let_def wf_meter_def Map_values_def list_all_iff)
  qed
qed

lemma register_onlyUnder:
  assumes "wf_meter m h" and "onlyUnder lo hi key (metricStorageRegistry m)" and "hi \<le> length h"
  shows "onlyUnder lo hi key (metricStorageRegistry (fst (register st r (m, h))))"
proof -
  let ?d = "registrationDescriptor r"
  let ?views = "findViews (viewRegistry st) ?d (instrumentationLibrary m)"
  let ?reg = "metricStorageRegistry m"
  let ?x = "length h + length ?views - 1"
  show ?thesis
  proof (cases "?views = []")
    case True
    with assms show ?thesis by (simp add: register_eq Let_def)
  next
    case False
    then have x: "length h \<le> ?x" by (cases ?views; simp)
    have d: "distinct (map fst ?reg)" using assms(1) by (simp add: wf_meter_def)
    show ?thesis
      using False assms(2,3) x
      by (auto simp: register_eq Let_def onlyUnder_def set_Map_set [OF d])
  qed
qed

lemma fold_register_inv:
  assumes "wf_meter m h" and "onlyUnder lo hi key (metricStorageRegistry m)" and "hi \<le> length h"
  shows "wf_meter (fst (fold (register st) rs (m, h))) (snd (fold (register st) rs (m, h)))
         \<and> onlyUnder lo hi key (metricStorageRegistry (fst (fold (register st) rs (m, h))))
         \<and> hi \<le> length (snd (fold (register st) rs (m, h)))
         \<and> instrumentationLibrary (fst (fold (register st) rs (m, h))) = instrumentationLibrary m"
  using assms
proof (induction rs arbitrary: m h)
  case Nil
  then show ?case by simp
next
  case (Cons r rs)
  obtain m1 h1 where e: "register st r (m, h) = (m1, h1)" by (cases "register st r (m, h)")
  have w: "wf_meter m1 h1" using register_wf [OF Cons.prems(1), of st r] e by simp
  have o: "onlyUnder lo hi key (metricStorageRegistry m1)"
    using register_onlyUnder [OF Cons.prems, of st r] e by simp
  have l: "hi \<le> length h1" using register_length [of h st r m] Cons.prems(3) e by simp
  have i: "instrumentationLibrary m1 = instrumentationLibrary m"
    using register_library [of st r m h] e by simp
  show ?case using Cons.IH [OF w o l] by (simp add: e i)
qed

lemma register_first_onlyUnder:
  assumes "wf_meter m h"
  shows "onlyUnder (length h) (length (snd (register st r (m, h)))) (name (registrationDescriptor r))
           (metricStorageRegistry (fst (register st r (m, h))))"
proof -
  let ?d = "registrationDescriptor r"
  let ?views = "findViews (viewRegistry st) ?d (instrumentationLibrary m)"
  let ?reg = "metricStorageRegistry m"
  have b: "\<forall>kv \<in> set ?reg. snd kv < length h"
    using assms by (simp add: wf_meter_def Map_values_def list_all_iff)
  have d: "distinct (map fst ?reg)" using assms(1) by (simp add: wf_meter_def)
  show ?thesis
  proof (cases "?views = []")
    case True
    then show ?thesis by (auto simp: register_eq Let_def onlyUnder_def)
  next
    case False
    then show ?thesis
      using b by (auto simp: register_eq Let_def onlyUnder_def set_Map_set [OF d])
  qed
qed

lemma create_sync_eq:
  assumes "(create, k) \<in> syncCreators"
    and "create st m h n options = (i, m', h')"
  shows "register st (RegisterSync (createInstrumentDescriptor n k options)) (m, h) = (m', h')
         \<and> writableMetricStorage i =
              (let views = findViews (viewRegistry st) (createInstrumentDescriptor n k options)
                             (instrumentationLibrary m)
               in if length views = 1 then StorageRef (length h)
                  else MultiMetricStorage [length h ..< length h + length views])"
  using assms
  by (auto simp: syncCreators_def createCounter_def createUpDownCounter_def createHistogram_def
      registerMetricStorage_def registerEach_eq Let_def)






subsection \<open>The registry stays well-formed\<close>

text \<open>
  A new Meter is well-formed, and registering, writing and collecting keep it so: the
  hypothesis \<open>wf_meter\<close> of the properties below holds in every state a program
  reaches.
\<close>

lemma Meter_constructor_wf: "wf_meter (fst (Meter_constructor this st lib)) h"
  by (simp add: Meter_constructor_def wf_meter_def Map_values_def)

lemma create_sync_wf:
  assumes "(create, k) \<in> syncCreators"
    and "wf_meter m h"
    and "create st m h n options = (i, m', h')"
  shows "wf_meter m' h'"
  using register_wf [OF assms(2), of st "RegisterSync (createInstrumentDescriptor n k options)"]
    create_sync_eq [OF assms(1,3)]
  by simp

lemma Instrument_write_length:
  "Instrument_write i h v a = Inr h' \<Longrightarrow> length h' = length h"
  by (cases i; cases "writableMetricStorage i")
     (auto simp: writeAt_def fold_writeAt_length split: if_splits)

lemma Instrument_write_wf:
  "wf_meter m h \<Longrightarrow> Instrument_write i h v a = Inr h' \<Longrightarrow> wf_meter m h'"
  using Instrument_write_length [of i h v a h'] by (simp add: wf_meter_def)

lemma Meter_collect_wf:
  "wf_meter m h \<Longrightarrow> wf_meter m (snd (Meter_collect st m h c t))"
  by (simp add: wf_meter_def Meter_collect_snd collectEach_length)

section \<open>Properties of the Meter\<close>

text \<open>
  C10. Constructing a Meter appends exactly that Meter to the list \<open>meters\<close> of the
  shared state and changes nothing else of the shared state: resource, SDK start time,
  view registry and collector list are the same, and the meters registered before keep
  their places. The new Meter has an empty registry and the given instrumentation
  library.
\<close>

theorem Meter_constructor_frame:
  "Meter_constructor this st lib = (m, st') \<Longrightarrow>
     meters st' = meters st @ [this]
     \<and> resource st' = resource st \<and> sdkStartTime st' = sdkStartTime st
     \<and> viewRegistry st' = viewRegistry st \<and> metricCollectors st' = metricCollectors st
     \<and> st' = st\<lparr>meters := meters st @ [this]\<rparr>
     \<and> metricStorageRegistry m = [] \<and> instrumentationLibrary m = lib"
  by (auto simp: Meter_constructor_def)

theorem Meter_constructor_frame_witness:
  "meters (snd (Meter_constructor 1
       ((example_sharedState (ViewRegistry_of []))\<lparr>meters := [0]\<rparr>) example_library)) = [0, 1]
   \<and> metricCollectors (snd (Meter_constructor 1
       ((example_sharedState (ViewRegistry_of []))\<lparr>meters := [0]\<rparr>) example_library))
     = [example_collector]"
  using Meter_constructor_frame
    [OF prod.collapse [symmetric],
     of 1 "(example_sharedState (ViewRegistry_of []))\<lparr>meters := [0]\<rparr>" example_library]
  by (simp add: example_sharedState_def)

text \<open>
  C8. Every creation of a synchronous instrument (counter, up-down counter, histogram)
  asks the view registry's \<open>findViews\<close> with the instrument's descriptor and the
  Meter's instrumentation library, creates exactly one \<open>SyncMetricStorage\<close> per
  returned view, in order, at the next free addresses of the store, and backs the
  returned instrument with that single storage when exactly one view was returned and
  with a \<open>MultiMetricStorage\<close> over all created storages otherwise.
\<close>

theorem create_sync_one_storage_per_view:
  assumes "(create, k) \<in> syncCreators"
    and "create st m h n options = (i, m', h')"
  shows "let d = createInstrumentDescriptor n k options;
             views = findViews (viewRegistry st) d (instrumentationLibrary m)
         in h' = h @ map (\<lambda>view. SyncMetricStorage_create view d) views
            \<and> writableMetricStorage i =
                (if length views = 1 then StorageRef (length h)
                 else MultiMetricStorage [length h ..< length h + length views])"
  using assms
  by (auto simp: syncCreators_def createCounter_def createUpDownCounter_def createHistogram_def
      registerMetricStorage_def registerEach_eq Let_def)

theorem create_sync_one_storage_per_view_witness:
  "(createCounter, COUNTER) \<in> syncCreators
   \<and> writableMetricStorage (fst (createCounter
        (example_sharedState (ViewRegistry_of
           [viewFor ''requests'' (Some ''requests_a'') SumAggregation,
            viewFor ''requests'' (Some ''requests_b'') SumAggregation]))
        example_meter [] ''requests'' example_options)) = MultiMetricStorage [0, 1]
   \<and> length (snd (snd (createCounter
        (example_sharedState (ViewRegistry_of
           [viewFor ''requests'' (Some ''requests_a'') SumAggregation,
            viewFor ''requests'' (Some ''requests_b'') SumAggregation]))
        example_meter [] ''requests'' example_options))) = 2"
proof -
  let ?st = "example_sharedState (ViewRegistry_of
           [viewFor ''requests'' (Some ''requests_a'') SumAggregation,
            viewFor ''requests'' (Some ''requests_b'') SumAggregation])"
  let ?r = "createCounter ?st example_meter [] ''requests'' example_options"
  have c: "(createCounter, COUNTER) \<in> syncCreators"
    by (simp add: syncCreators_def)
  have e: "?r = (fst ?r, fst (snd ?r), snd (snd ?r))"
    by simp
  show ?thesis
    using c create_sync_one_storage_per_view [OF c e]
    by (simp add: Let_def example_sharedState_def example_meter_def Meter_constructor_def
        ViewRegistry_of_def viewFor_def matchView_def createInstrumentDescriptor_def)
qed



text \<open>
  C5. Of two registrations under the same name within one Meter (synchronous or
  asynchronous, with any registrations in between) the second wins: provided
  \<open>findViews\<close> returns at least one view for the second, the registry afterwards maps
  the name to the storage the second registration created last, no storage created by
  the first registration is in the registry, so \<open>Meter.collect\<close> leaves those
  untouched, and the registration returns normally with a well-formed registry.
\<close>

theorem second_registration_wins:
  assumes "wf_meter m h"
    and "name (registrationDescriptor r1) = name (registrationDescriptor r2)"
    and "register st r1 (m, h) = (m1, h1)"
    and "fold (register st) rs (m1, h1) = (m', h')"
    and "findViews (viewRegistry st) (registrationDescriptor r2) (instrumentationLibrary m') = views"
    and "views \<noteq> []"
    and "register st r2 (m', h') = (m2, h2)"
  shows "Map_get (metricStorageRegistry m2) (name (registrationDescriptor r2)) = Some (length h2 - 1)
         \<and> length h' \<le> length h2 - 1 \<and> length h2 - 1 < length h2
         \<and> h2 ! (length h2 - 1) = registrationCreate r2 (last views)
         \<and> (\<forall>x. length h \<le> x \<and> x < length h1 \<longrightarrow>
               x \<notin> set (Map_values (metricStorageRegistry m2))
               \<and> (\<forall>h3 c t. snd (Meter_collect st m2 h3 c t) ! x = h3 ! x))
         \<and> wf_meter m2 h2"
proof -
  let ?key = "name (registrationDescriptor r2)"
  let ?x2 = "length h' + length views - 1"
  have w1: "wf_meter m1 h1" using register_wf [OF assms(1), of st r1] assms(3) by simp
  have o1: "onlyUnder (length h) (length h1) ?key (metricStorageRegistry m1)"
    using register_first_onlyUnder [OF assms(1), of st r1] assms(2,3) by simp
  from fold_register_inv [OF w1 o1 order_refl, of st rs] assms(4)
  have w': "wf_meter m' h'"
    and o': "onlyUnder (length h) (length h1) ?key (metricStorageRegistry m')"
    and l': "length h1 \<le> length h'"
    by simp_all
  have d': "distinct (map fst (metricStorageRegistry m'))" using w' by (simp add: wf_meter_def)
  from assms(5,6,7) have m2: "metricStorageRegistry m2 = Map_set (metricStorageRegistry m') ?key ?x2"
    and h2: "h2 = h' @ map (registrationCreate r2) views"
    by (auto simp: register_eq Let_def)
  from assms(6) have n: "Suc 0 \<le> length views" by (cases views) simp_all
  have len: "length h2 - 1 = ?x2" using h2 by simp
  have a: "Map_get (metricStorageRegistry m2) ?key = Some (length h2 - 1)"
    using len by (simp add: Map_get_def m2 map_of_Map_set)
  have b: "length h' \<le> length h2 - 1" "length h2 - 1 < length h2"
    using n by (simp_all add: h2)
  have "h2 ! (length h2 - 1) = last h2" using assms(6) by (simp add: h2 last_conv_nth)
  also have "\<dots> = registrationCreate r2 (last views)"
    using assms(6) by (simp add: h2 last_map)
  finally have c: "h2 ! (length h2 - 1) = registrationCreate r2 (last views)" .
  have e: "x \<notin> set (Map_values (metricStorageRegistry m2))"
    if "length h \<le> x" and "x < length h1" for x
  proof
    assume "x \<in> set (Map_values (metricStorageRegistry m2))"
    then obtain k where "(k, x) \<in> set (Map_set (metricStorageRegistry m') ?key ?x2)"
      by (auto simp: Map_values_def m2)
    then have "(k, x) = (?key, ?x2) \<or> ((k, x) \<in> set (metricStorageRegistry m') \<and> k \<noteq> ?key)"
      by (auto simp: set_Map_set [OF d'])
    then show False
    proof
      assume "(k, x) = (?key, ?x2)"
      with that l' n show False by auto
    next
      assume "(k, x) \<in> set (metricStorageRegistry m') \<and> k \<noteq> ?key"
      with o' that show False by (auto simp: onlyUnder_def)
    qed
  qed
  have f: "wf_meter m2 h2" using register_wf [OF w', of st r2] assms(7) by simp
  from a b c e f Meter_collect_untouched show ?thesis by blast
qed

theorem second_registration_wins_witness:
  "wf_meter example_meter []
   \<and> register (example_sharedState (ViewRegistry_of []))
        (RegisterSync (createInstrumentDescriptor ''requests'' COUNTER example_options))
        (example_meter, [])
      = (\<lparr>metricStorageRegistry = [(''requests'', 0)], instrumentationLibrary = example_library\<rparr>,
         [SyncMetricStorage_create DEFAULT_VIEW
            (createInstrumentDescriptor ''requests'' COUNTER example_options)])
   \<and> Map_get (metricStorageRegistry (fst (register (example_sharedState (ViewRegistry_of []))
        (RegisterAsync (createInstrumentDescriptor ''requests'' OBSERVABLE_GAUGE example_options)
           failingCallback)
        (\<lparr>metricStorageRegistry = [(''requests'', 0)], instrumentationLibrary = example_library\<rparr>,
         [SyncMetricStorage_create DEFAULT_VIEW
            (createInstrumentDescriptor ''requests'' COUNTER example_options)])))) ''requests''
      = Some 1
   \<and> 0 \<notin> set (Map_values (metricStorageRegistry (fst (register
        (example_sharedState (ViewRegistry_of []))
        (RegisterAsync (createInstrumentDescriptor ''requests'' OBSERVABLE_GAUGE example_options)
           failingCallback)
        (\<lparr>metricStorageRegistry = [(''requests'', 0)], instrumentationLibrary = example_library\<rparr>,
         [SyncMetricStorage_create DEFAULT_VIEW
            (createInstrumentDescriptor ''requests'' COUNTER example_options)])))))"
proof -
  let ?st = "example_sharedState (ViewRegistry_of [])"
  let ?d1 = "createInstrumentDescriptor ''requests'' COUNTER example_options"
  let ?d2 = "createInstrumentDescriptor ''requests'' OBSERVABLE_GAUGE example_options"
  let ?r1 = "RegisterSync ?d1"
  let ?r2 = "RegisterAsync ?d2 failingCallback"
  let ?m1 = "\<lparr>metricStorageRegistry = [(''requests'', 0)], instrumentationLibrary = example_library\<rparr>"
  let ?h1 = "[SyncMetricStorage_create DEFAULT_VIEW ?d1]"
  let ?R = "register ?st ?r2 (?m1, ?h1)"
  have w: "wf_meter example_meter []" by code_simp
  have n: "name (registrationDescriptor ?r1) = name (registrationDescriptor ?r2)"
    by (simp add: createInstrumentDescriptor_def)
  have s1: "register ?st ?r1 (example_meter, []) = (?m1, ?h1)"
    by (simp add: register_eq Let_def example_sharedState_def ViewRegistry_of_def
        example_meter_def Meter_constructor_def createInstrumentDescriptor_def)
  have f: "fold (register ?st) [] (?m1, ?h1) = (?m1, ?h1)" by simp
  have v: "findViews (viewRegistry ?st) (registrationDescriptor ?r2) (instrumentationLibrary ?m1)
             = [DEFAULT_VIEW]"
    by (simp add: example_sharedState_def ViewRegistry_of_def)
  have ne: "[DEFAULT_VIEW] \<noteq> []" by simp
  have s2: "?R = (fst ?R, snd ?R)" by simp
  from second_registration_wins [OF w n s1 f v ne s2]
  have "Map_get (metricStorageRegistry (fst ?R)) (name ?d2) = Some (length (snd ?R) - 1)"
    and "0 \<notin> set (Map_values (metricStorageRegistry (fst ?R)))"
    by simp_all
  moreover have "length (snd ?R) = 2"
    by (simp add: register_eq Let_def v [simplified])
  moreover have "name ?d2 = ''requests''" by (simp add: createInstrumentDescriptor_def)
  ultimately show ?thesis using w s1 by simp
qed







section \<open>Properties of the collection\<close>




text \<open>
  C6. The list returned by \<open>Meter.collect\<close> holds no \<open>undefined\<close> entry: it is
  the list of the storages' results with the empty ones discarded; and when every
  storage produces an empty result the call returns the empty list, not an error.
\<close>

theorem Meter_collect_discards_empty:
  assumes "wf_meter m h"
  shows "(\<forall>rs. fst (Meter_collect st m h c t) = Inr rs \<longrightarrow>
            None \<notin> set rs
            \<and> rs = filter isNotNullish
                     (map (\<lambda>x. projr (storageResult st m h c t x))
                        (Map_values (metricStorageRegistry m))))
         \<and> ((\<forall>x \<in> set (Map_values (metricStorageRegistry m)).
               storageResult st m h c t x = Inr None)
            \<longrightarrow> fst (Meter_collect st m h c t) = Inr [])"
proof -
  let ?xs = "Map_values (metricStorageRegistry m)"
  let ?ps = "map (storageResult st m h c t) ?xs"
  have d: "distinct ?xs" using assms by (simp add: wf_meter_def)
  note f = Meter_collect_fst [OF d, of st h c t]
  have a: "None \<notin> set rs
       \<and> rs = filter isNotNullish (map (\<lambda>x. projr (storageResult st m h c t x)) ?xs)"
    if "fst (Meter_collect st m h c t) = Inr rs" for rs
  proof -
    from that obtain result where r: "Promise_all ?ps = Inr result"
      and rs: "rs = filter isNotNullish result"
      by (auto simp: f split: sum.splits)
    from r have ps: "?ps = map Inr result" by (simp add: Promise_all_Inr)
    have "map projr ?ps = result" by (simp add: ps comp_def)
    then have "result = map (\<lambda>x. projr (storageResult st m h c t x)) ?xs"
      by (simp add: comp_def)
    with rs show ?thesis by (auto simp: isNotNullish_def)
  qed
  have b: "fst (Meter_collect st m h c t) = Inr []"
    if "\<forall>x \<in> set ?xs. storageResult st m h c t x = Inr None"
  proof -
    from that have "?ps = map Inr (replicate (length ?xs) None)"
      by (simp add: map_replicate_const [symmetric] del: replicate.simps) 
    then have "Promise_all ?ps = Inr (replicate (length ?xs) None)"
      by (simp add: Promise_all_Inr)
    then show ?thesis by (simp add: f isNotNullish_def)
  qed
  from a b show ?thesis by blast
qed

theorem Meter_collect_discards_empty_witness:
  "wf_meter (fst twoViewsRun) (snd twoViewsRun)
   \<and> \<not> isl (fst (Meter_collect (example_sharedState twoViews) (fst twoViewsRun)
              (snd twoViewsRun) example_collector (2, 0)))
   \<and> None \<notin> set (projr (fst (Meter_collect (example_sharedState twoViews) (fst twoViewsRun)
              (snd twoViewsRun) example_collector (2, 0))))
   \<and> wf_meter (fst unwrittenRun) (snd unwrittenRun)
   \<and> Map_values (metricStorageRegistry (fst unwrittenRun)) = [0]
   \<and> storageResult (example_sharedState (ViewRegistry_of [])) (fst unwrittenRun)
        (snd unwrittenRun) example_collector (2, 0) 0 = Inr None
   \<and> fst (Meter_collect (example_sharedState (ViewRegistry_of [])) (fst unwrittenRun)
          (snd unwrittenRun) example_collector (2, 0)) = Inr []"
proof -
  let ?X = "fst (Meter_collect (example_sharedState twoViews) (fst twoViewsRun)
              (snd twoViewsRun) example_collector (2, 0))"
  have w2: "wf_meter (fst twoViewsRun) (snd twoViewsRun)" by code_simp
  have e: "\<not> isl ?X" by code_simp
  then have x: "?X = Inr (projr ?X)" by (cases ?X) simp_all
  have w3: "wf_meter (fst unwrittenRun) (snd unwrittenRun)" by code_simp
  have v: "Map_values (metricStorageRegistry (fst unwrittenRun)) = [0]" by code_simp
  have n: "storageResult (example_sharedState (ViewRegistry_of [])) (fst unwrittenRun)
        (snd unwrittenRun) example_collector (2, 0) 0 = Inr None"
    by code_simp
  from Meter_collect_discards_empty [OF w2, of "example_sharedState twoViews"
      example_collector "(2, 0)"] x
  have a: "None \<notin> set (projr ?X)"
    by blast
  from Meter_collect_discards_empty [OF w3, of "example_sharedState (ViewRegistry_of [])"
      example_collector "(2, 0)"] v n
  have b: "fst (Meter_collect (example_sharedState (ViewRegistry_of [])) (fst unwrittenRun)
          (snd unwrittenRun) example_collector (2, 0)) = Inr []"
    by simp
  from w2 a e w3 v n b show ?thesis by blast
qed



section \<open>Histogram bucketing\<close>

text \<open>
  C9, as the code has it. For a histogram with explicit boundaries \<open>[0, 100]\<close>,
  recording the values 10 and 11 (and nothing else) under one attribute set yields, at
  the next collection, a single point with \<open>sum = 21\<close>, \<open>count = 2\<close> and three
  buckets, \<open>bucketCounts = [0, 2, 0]\<close>: two boundaries and the implicit last boundary
  at plus infinity. \<open>bucketCounts = [2, 0]\<close> is what the helper's default boundaries
  \<open>[Infinity]\<close> give.
\<close>

theorem histogram_two_boundaries_three_buckets:
  "histogramRun [Finite 0, Finite 100] [10, 11] = Inr [Some [HistogramState 21 2 [0, 2, 0]]]
   \<and> histogramRun [Infinity] [10, 11] = Inr [Some [HistogramState 21 2 [2, 0]]]"
  by code_simp

text \<open>
  C9 as stated fails: with boundaries \<open>[0, 100]\<close> the point does not have
  \<open>bucketCounts = [2, 0]\<close>.
\<close>

theorem histogram_two_boundaries_counterexample:
  "histogramRun [Finite 0, Finite 100] [10, 11] \<noteq> Inr [Some [HistogramState 21 2 [2, 0]]]"
  by code_simp

end
